theory Spec2Isabelle
  imports Complex_Main
begin

section \<open>Python and numpy values\<close>

text \<open>
  A Python \<open>str\<close> is a sequence of Unicode code points and \<open>ord\<close> returns the code
  point, so a string is modelled as the list of its code points. \<open>str\<close> turns an ASCII
  literal into that form.
\<close>

type_synonym pystr = "nat list"

definition str :: "string \<Rightarrow> pystr" where
  "str s = map of_char s"

text \<open>
  A numpy \<open>float64\<close> result is either a number or \<open>nan\<close>. Numbers are kept as the reals
  they stand for: rounding is not modelled, with one exception that the scores depend on,
  the underflow of \<open>np.exp\<close> (see \<open>np_exp\<close>).
\<close>

datatype npfloat = Num real | NaN

text \<open>
  Errors a call may end in. No statement of \<open>MSC.py\<close> raises: \<open>ord\<close> is applied to
  single characters only, and numpy answers a division \<open>0.0 / 0\<close> with \<open>nan\<close> and a
  warning where plain Python would raise \<open>ZeroDivisionError\<close>.
\<close>

datatype error = InvalidInput | ZeroDivisionError

subsection \<open>String methods used by the program\<close>

text \<open>
  \<open>str.lower\<close>, code point by code point. The table is exact below U+0100 (ASCII and
  Latin-1 capitals) and for the two code points beyond whose lower-case form contains an
  ASCII letter (U+0130, U+212A). Every other cased code point is left in place: Python
  replaces it by lower-case letters that, like the code point itself, are neither
  whitespace nor one of the characters \<open>clean\<close> tests for, so \<open>clean\<close> drops both alike.
\<close>

definition lower_cp :: "nat \<Rightarrow> pystr" where
  "lower_cp c =
     (if 65 \<le> c \<and> c \<le> 90 then [c + 32]
      else if 192 \<le> c \<and> c \<le> 222 \<and> c \<noteq> 215 then [c + 32]
      else if c = 304 then [105, 775]
      else if c = 8490 then [107]
      else [c])"

definition lower :: "pystr \<Rightarrow> pystr" where
  "lower text = concat (map lower_cp text)"

text \<open>\<open>text.replace(old, new)\<close> for single-character \<open>old\<close> and \<open>new\<close>.\<close>

definition replace :: "nat \<Rightarrow> nat \<Rightarrow> pystr \<Rightarrow> pystr" where
  "replace old new text = map (\<lambda>c. if c = old then new else c) text"

text \<open>\<open>str.isspace\<close> on one code point: the characters \<open>strip()\<close> removes.\<close>

definition isspace :: "nat \<Rightarrow> bool" where
  "isspace c \<longleftrightarrow>
     (9 \<le> c \<and> c \<le> 13) \<or> (28 \<le> c \<and> c \<le> 32) \<or> c = 133 \<or> c = 160 \<or> c = 5760 \<or>
     (8192 \<le> c \<and> c \<le> 8202) \<or> c = 8232 \<or> c = 8233 \<or> c = 8239 \<or> c = 8287 \<or> c = 12288"

definition strip :: "pystr \<Rightarrow> pystr" where
  "strip text = rev (dropWhile isspace (rev (dropWhile isspace text)))"

text \<open>\<open>re.sub(' +', ' ', text)\<close>: every maximal run of spaces becomes one space.\<close>

function re_sub_spaces :: "pystr \<Rightarrow> pystr" where
  "re_sub_spaces [] = []"
| "re_sub_spaces (c # cs) =
     (if c = 32 then 32 # re_sub_spaces (dropWhile (\<lambda>d. d = 32) cs)
      else c # re_sub_spaces cs)"
  by pat_completeness auto
termination
  by (relation "measure length") (auto simp: less_Suc_eq_le length_dropWhile_le)

text \<open>
  \<open>text.split(sep)\<close> with a one-character separator: every occurrence of the separator
  ends a word, so adjacent separators give empty words and the empty text gives one
  empty word.
\<close>

fun py_split :: "nat \<Rightarrow> pystr \<Rightarrow> pystr list" where
  "py_split sep [] = [[]]"
| "py_split sep (c # cs) =
     (if c = sep then [] # py_split sep cs
      else (c # hd (py_split sep cs)) # tl (py_split sep cs))"

text \<open>\<open>sep.join(parts)\<close>.\<close>

fun py_join :: "pystr \<Rightarrow> pystr list \<Rightarrow> pystr" where
  "py_join sep [] = []"
| "py_join sep [p] = p"
| "py_join sep (p # q # ps) = p @ sep @ py_join sep (q # ps)"

section \<open>Class MSC\<close>

text \<open>
  \<open>np.exp\<close> on a \<open>float64\<close>: a result not above \<open>2 ^ -1075\<close>, half of the least positive
  \<open>float64\<close>, is returned as \<open>0.0\<close>. The argument is never positive in this program, so
  there is no overflow.
\<close>

definition underflow_bound :: real where
  "underflow_bound = 1 / 2 ^ 1075"

definition np_exp :: "real \<Rightarrow> real" where
  "np_exp x = (if exp x \<le> underflow_bound then 0 else exp x)"

text \<open>\<open>kernel\<close>: \<open>np.exp(- 0.5 * x ** 2 / s ** 2)\<close>, on one entry of the array.\<close>

definition kernel :: "int \<Rightarrow> int \<Rightarrow> real" where
  "kernel x s = np_exp (- 0.5 * (of_int x)\<^sup>2 / (of_int s)\<^sup>2)"

text \<open>
  \<open>S\<close>: \<open>np.sum(self.kernel(X)) / len(X)\<close>, the bandwidth left at its default 1.
  For an empty array the sum is \<open>0.0\<close> and numpy's \<open>0.0 / 0\<close> is \<open>nan\<close>.
\<close>

definition S :: "int list \<Rightarrow> npfloat" where
  "S X = (if length X = 0 then NaN
          else Num (sum_list (map (\<lambda>x. kernel x 1) X) / real (length X)))"

text \<open>\<open>_ord\<close>: \<open>list(map(ord, text))\<close>.\<close>

definition ord_list :: "pystr \<Rightarrow> int list" where
  "ord_list text = map int text"

text \<open>\<open>equalizeTexts\<close>; \<open>chr(0)\<close> is the code point 0 and the separator is the space, 32.\<close>

definition equalizeTexts :: "pystr \<Rightarrow> pystr \<Rightarrow> pystr \<times> pystr" where
  "equalizeTexts text1 text2 =
     (let n1 = length (py_split 32 text1);
          n2 = length (py_split 32 text2)
      in if n1 > n2 then (text1, text2 @ py_join [32] (replicate (n1 - n2) [0]))
         else (text1 @ py_join [32] (replicate (n2 - n1) [0]), text2))"

text \<open>\<open>clean\<close>; the letters replaced are U+00E9 and U+00E8, the line feed is 10.\<close>

definition keep :: "nat \<Rightarrow> bool" where
  "keep c \<longleftrightarrow> (97 \<le> c \<and> c \<le> 122) \<or> (48 \<le> c \<and> c \<le> 57) \<or> c = 32"

definition clean :: "pystr \<Rightarrow> pystr" where
  "clean text =
     filter keep
       (re_sub_spaces (strip (replace 10 32 (replace 232 101 (replace 233 101 (lower text))))))"

text \<open>
  The body of the loop of \<open>similarity\<close>, for one pair of words: both code lists are
  brought to the same length with zeros (\<open>equalizeInts\<close>), \<open>z = int2 - int1\<close> is their
  difference (\<open>differences\<close>) and the score of the pair is \<open>S(z)\<close>. With \<open>verbose\<close>
  set the loop also prints the pair, \<open>z\<close> and the score; that does not change the result
  and is left out.
\<close>

definition equalizeInts :: "int list \<Rightarrow> int list \<Rightarrow> int list \<times> int list" where
  "equalizeInts int1 int2 =
     (let n1 = length int1; n2 = length int2
      in if n1 > n2 then (int1, int2 @ replicate (n1 - n2) 0)
         else (int1 @ replicate (n2 - n1) 0, int2))"

definition differences :: "pystr \<Rightarrow> pystr \<Rightarrow> int list" where
  "differences word1 word2 =
     (case equalizeInts (ord_list word1) (ord_list word2) of
        (int1, int2) \<Rightarrow> map2 (\<lambda>a b. b - a) int1 int2)"

definition word_score :: "pystr \<Rightarrow> pystr \<Rightarrow> npfloat" where
  "word_score word1 word2 = S (differences word1 word2)"

text \<open>\<open>np.mean\<close> of a list of \<open>float64\<close>: \<open>nan\<close> for the empty list, and \<open>nan\<close> spreads.\<close>

fun np_sum :: "npfloat list \<Rightarrow> npfloat" where
  "np_sum [] = Num 0"
| "np_sum (Num a # xs) = (case np_sum xs of Num b \<Rightarrow> Num (a + b) | NaN \<Rightarrow> NaN)"
| "np_sum (NaN # xs) = NaN"

definition np_mean :: "npfloat list \<Rightarrow> npfloat" where
  "np_mean sim =
     (if length sim = 0 then NaN
      else case np_sum sim of Num t \<Rightarrow> Num (t / real (length sim)) | NaN \<Rightarrow> NaN)"

text \<open>The word pairs \<open>similarity\<close> iterates over, and \<open>similarity\<close> itself.\<close>

definition word_pairs :: "pystr \<Rightarrow> pystr \<Rightarrow> (pystr \<times> pystr) list" where
  "word_pairs text1 text2 =
     (case equalizeTexts (clean text1) (clean text2) of
        (t1, t2) \<Rightarrow> zip (py_split 32 t1) (py_split 32 t2))"

definition similarity :: "pystr \<Rightarrow> pystr \<Rightarrow> error + npfloat" where
  "similarity text1 text2 =
     Inr (np_mean (map (\<lambda>(word1, word2). word_score word1 word2) (word_pairs text1 text2)))"

section \<open>Class MSCMultiple\<close>

text \<open>
  \<open>MSCMultiple.similarity\<close>: the scores of the zipped fields are collected, an error of
  a field's comparison ending the loop, and averaged with \<open>np.mean\<close>.
\<close>

fun scores :: "(pystr \<times> pystr) list \<Rightarrow> error + npfloat list" where
  "scores [] = Inr []"
| "scores ((field1, field2) # fs) =
     (case similarity field1 field2 of
        Inl e \<Rightarrow> Inl e
      | Inr s \<Rightarrow> (case scores fs of Inl e \<Rightarrow> Inl e | Inr sim \<Rightarrow> Inr (s # sim)))"

definition MSCMultiple_similarity :: "pystr list \<Rightarrow> pystr list \<Rightarrow> error + npfloat" where
  "MSCMultiple_similarity fields1 fields2 =
     (case scores (zip fields1 fields2) of Inl e \<Rightarrow> Inl e | Inr sim \<Rightarrow> Inr (np_mean sim))"

section \<open>Bounds on the exponential\<close>

text \<open>
  Where \<open>np.exp\<close> underflows is decided by two bounds on powers of \<open>e\<close>, obtained from
  rational bounds on \<open>exp 1\<close>.
\<close>

lemma exp_one_upper: "exp (1::real) \<le> 69 / 25"
proof -
  have "exp (1 / 32 :: real) \<le> 1 + 1 / 32 + (1 / 32)\<^sup>2"
    by (rule exp_bound) simp_all
  then have a: "exp (1 / 32 :: real) \<le> 1057 / 1024"
    by (simp add: power2_eq_square)
  have "exp (1::real) = exp (of_nat 32 * (1 / 32))"
    by simp
  also have "\<dots> = exp (1 / 32) ^ 32"
    by (rule exp_of_nat_mult)
  also have "\<dots> \<le> (1057 / 1024) ^ 32"
    using a by (intro power_mono) simp_all
  also have "\<dots> \<le> (69 / 25 :: real)"
    by (simp add: power_divide)
  finally show ?thesis .
qed

lemma exp_one_lower: "2697 / 1000 \<le> exp (1::real)"
proof -
  have "(1 + 1 / of_nat 64) ^ 64 \<le> exp (1::real)"
    by (rule exp_ge_one_plus_x_over_n_power_n) simp_all
  moreover have "(2697 / 1000 :: real) \<le> (1 + 1 / of_nat 64) ^ 64"
    by (simp add: power_divide)
  ultimately show ?thesis by linarith
qed

lemma exp_722_less: "exp (722::real) < 2 ^ 1075"
proof -
  have "exp (19::real) = exp (of_nat 19 * 1)"
    by simp
  also have "\<dots> = exp 1 ^ 19"
    by (rule exp_of_nat_mult)
  also have "\<dots> \<le> (69 / 25) ^ 19"
    using exp_one_upper by (intro power_mono) simp_all
  also have "\<dots> < (2::real) ^ 28"
    by (simp add: power_divide)
  finally have a: "exp (19::real) < 2 ^ 28" .
  have "exp (722::real) = exp (of_nat 38 * 19)"
    by simp
  also have "\<dots> = exp 19 ^ 38"
    by (rule exp_of_nat_mult)
  also have "\<dots> < (2 ^ 28) ^ 38"
    using a by (intro power_strict_mono) simp_all
  also have "\<dots> = (2::real) ^ 1064"
    by (simp add: power_mult [symmetric])
  also have "\<dots> \<le> (2::real) ^ 1075"
    by (intro power_increasing) simp_all
  finally show ?thesis .
qed

lemma exp_756_ge: "(2::real) ^ 1075 \<le> exp 756"
proof -
  have "(2::real) ^ 10 \<le> (2697 / 1000) ^ 7"
    by (simp add: power_divide)
  also have "\<dots> \<le> exp 1 ^ 7"
    using exp_one_lower by (intro power_mono) simp_all
  also have "\<dots> = exp (of_nat 7 * (1::real))"
    by (rule exp_of_nat_mult [symmetric])
  finally have a: "(2::real) ^ 10 \<le> exp 7"
    by simp
  have "(2::real) ^ 1075 \<le> 2 ^ 1080"
    by (intro power_increasing) simp_all
  also have "\<dots> = ((2::real) ^ 10) ^ 108"
    by (simp add: power_mult [symmetric])
  also have "\<dots> \<le> exp 7 ^ 108"
    using a by (intro power_mono) simp_all
  also have "\<dots> = exp (of_nat 108 * (7::real))"
    by (rule exp_of_nat_mult [symmetric])
  finally show ?thesis
    by simp
qed

section \<open>The kernel\<close>

lemma np_exp_eq_0_iff: "np_exp x = 0 \<longleftrightarrow> exp x \<le> underflow_bound"
  by (simp add: np_exp_def)

lemma np_exp_range: "0 \<le> np_exp x" "x \<le> 0 \<Longrightarrow> np_exp x \<le> 1"
  by (simp_all add: np_exp_def)

lemma np_exp_mono:
  assumes "x \<le> y" shows "np_exp x \<le> np_exp y"
proof -
  have "exp x \<le> exp y"
    using assms by simp
  then show ?thesis
    unfolding np_exp_def by (simp add: order_trans [of "exp x" "exp y" underflow_bound])
qed

lemma np_exp_strict_mono: "x < y \<Longrightarrow> np_exp y \<noteq> 0 \<Longrightarrow> np_exp x < np_exp y"
  by (auto simp: np_exp_def split: if_splits)

lemma kernel_one: "kernel x 1 = np_exp (- ((of_int x)\<^sup>2 / 2))"
  by (simp add: kernel_def)

lemma kernel_even: "kernel (- x) s = kernel x s"
  by (simp add: kernel_def)

lemma kernel_range: "0 \<le> kernel x 1" "kernel x 1 \<le> 1"
  by (simp_all add: kernel_one np_exp_range)

lemma underflow_bound_less_1: "underflow_bound < 1"
proof -
  have "(1::real) < 2 ^ 1075"
    by (rule one_less_power) simp_all
  then show ?thesis
    unfolding underflow_bound_def
    by (simp only: divide_less_eq_1_pos zero_less_power zero_less_numeral)
qed

lemma kernel_0: "kernel 0 1 = 1"
  using underflow_bound_less_1 by (simp add: kernel_def np_exp_def)

lemma kernel_far: 
  assumes "39 \<le> \<bar>x\<bar>" shows "kernel x 1 = 0"
proof -
  have "39\<^sup>2 \<le> \<bar>x\<bar>\<^sup>2"
    using assms by (intro power_mono) simp_all
  then have "(1521::int) \<le> x\<^sup>2"
    by simp
  then have "(1521::real) \<le> (of_int x)\<^sup>2"
    by (metis of_int_le_iff of_int_numeral of_int_power)
  then have "- ((of_int x)\<^sup>2 / 2) \<le> (- 756 :: real)"
    by simp
  then have "exp (- ((of_int x)\<^sup>2 / 2)) \<le> exp (- 756 :: real)"
    by (simp only: exp_le_cancel_iff)
  also have "\<dots> = 1 / exp 756"
    by (simp add: exp_minus inverse_eq_divide)
  also have "\<dots> \<le> 1 / 2 ^ 1075"
    using exp_756_ge by (intro divide_left_mono) simp_all
  finally have "exp (- ((of_int x)\<^sup>2 / 2)) \<le> underflow_bound"
    by (simp only: underflow_bound_def)
  then show ?thesis
    by (simp add: kernel_one np_exp_eq_0_iff)
qed

lemma kernel_near:
  assumes "\<bar>x\<bar> \<le> 38" shows "kernel x 1 = exp (- ((of_int x)\<^sup>2 / 2))" "0 < kernel x 1"
proof -
  have "\<bar>x\<bar>\<^sup>2 \<le> 38\<^sup>2"
    using assms by (intro power_mono) simp_all
  then have "x\<^sup>2 \<le> (1444::int)"
    by simp
  then have "(of_int x)\<^sup>2 \<le> (1444::real)"
    by (metis of_int_le_iff of_int_numeral of_int_power)
  then have "(- 722 :: real) \<le> - ((of_int x)\<^sup>2 / 2)"
    by simp
  then have a: "exp (- 722 :: real) \<le> exp (- ((of_int x)\<^sup>2 / 2))"
    by (simp only: exp_le_cancel_iff)
  have "1 / 2 ^ 1075 < 1 / exp (722 :: real)"
    using exp_722_less by (intro divide_strict_left_mono) simp_all
  also have "\<dots> = exp (- 722)"
    by (simp add: exp_minus inverse_eq_divide)
  finally have "underflow_bound < exp (- 722)"
    by (simp only: underflow_bound_def)
  then have "underflow_bound < exp (- ((of_int x)\<^sup>2 / 2))"
    using a by (rule less_le_trans)
  then show "kernel x 1 = exp (- ((of_int x)\<^sup>2 / 2))" 
    by (simp add: kernel_one np_exp_def)
  then show "0 < kernel x 1" by simp
qed

lemma kernel_eq_0_iff: "kernel x 1 = 0 \<longleftrightarrow> 39 \<le> \<bar>x\<bar>"
proof
  assume "kernel x 1 = 0"
  then show "39 \<le> \<bar>x\<bar>"
    using kernel_near(2) [of x] by (cases "\<bar>x\<bar> \<le> 38") simp_all
qed (rule kernel_far)

lemma kernel_eq_1_iff: "kernel x 1 = 1 \<longleftrightarrow> x = 0"
proof
  assume a: "kernel x 1 = 1"
  then have "\<not> 39 \<le> \<bar>x\<bar>"
    using kernel_far [of x] by auto
  then have "exp (- ((of_int x)\<^sup>2 / 2)) = (1::real)"
    using a kernel_near(1) [of x] by simp
  then show "x = 0"
    by simp
qed (simp add: kernel_0)

lemma kernel_antimono:
  assumes "\<bar>x\<bar> \<le> \<bar>y\<bar>" shows "kernel y 1 \<le> kernel x 1"
proof -
  have "\<bar>x\<bar>\<^sup>2 \<le> \<bar>y\<bar>\<^sup>2"
    using assms by (intro power_mono) simp_all
  then have "x\<^sup>2 \<le> y\<^sup>2"
    by simp
  then have "(of_int x :: real)\<^sup>2 \<le> (of_int y)\<^sup>2"
    by (metis of_int_le_iff of_int_power)
  then show ?thesis
    by (simp add: kernel_one np_exp_mono)
qed

lemma kernel_strict_antimono:
  assumes "\<bar>x\<bar> < \<bar>y\<bar>" "\<bar>x\<bar> \<le> 38" shows "kernel y 1 < kernel x 1"
proof -
  have "\<bar>x\<bar>\<^sup>2 < \<bar>y\<bar>\<^sup>2"
    using assms by (intro power_strict_mono) simp_all
  then have "x\<^sup>2 < y\<^sup>2"
    by simp
  then have "(of_int x :: real)\<^sup>2 < (of_int y)\<^sup>2"
    by (metis of_int_less_iff of_int_power)
  then have "- ((of_int y)\<^sup>2 / 2) < (- ((of_int x)\<^sup>2 / 2) :: real)"
    by simp
  moreover have "np_exp (- ((of_int x)\<^sup>2 / 2)) \<noteq> 0"
    using kernel_near(2) [OF assms(2)] by (simp add: kernel_one)
  ultimately show ?thesis
    unfolding kernel_one by (rule np_exp_strict_mono)
qed

section \<open>Scores of arrays and of word pairs\<close>

lemma sum_kernel_range:
  "0 \<le> sum_list (map (\<lambda>x. kernel x 1) X)" "sum_list (map (\<lambda>x. kernel x 1) X) \<le> real (length X)"
proof (induction X)
  case Nil
  { case 1 show ?case by simp }
  { case 2 show ?case by simp }
next
  case (Cons x X)
  { case 1 show ?case using Cons.IH(1) kernel_range(1) [of x] by simp }
  { case 2 show ?case using Cons.IH(2) kernel_range(2) [of x] by simp }
qed

lemma S_NaN_iff: "S X = NaN \<longleftrightarrow> X = []"
  by (simp add: S_def)

lemma S_range:
  assumes "S X = Num r" shows "0 \<le> r" "r \<le> 1"
proof -
  from assms have ne: "X \<noteq> []" and r: "r = sum_list (map (\<lambda>x. kernel x 1) X) / real (length X)"
    by (auto simp: S_def split: if_splits)
  show "0 \<le> r"
    unfolding r using sum_kernel_range(1) [of X] by simp
  show "r \<le> 1"
    unfolding r using sum_kernel_range(2) [of X] ne by (simp add: divide_le_eq_1)
qed

lemma S_uminus: "S (map uminus X) = S X"
  by (simp add: S_def comp_def kernel_even)

lemma S_replicate_0: "0 < n \<Longrightarrow> S (replicate n 0) = Num 1"
  by (simp add: S_def map_replicate_const sum_list_replicate kernel_0)

lemma equalizeInts_swap:
  "equalizeInts int2 int1 = prod.swap (equalizeInts int1 int2)"
  by (simp add: equalizeInts_def Let_def)

lemma equalizeInts_length:
  "equalizeInts int1 int2 = (a, b) \<Longrightarrow> length a = length b \<and> length a = max (length int1) (length int2)"
  by (auto simp: equalizeInts_def Let_def split: if_splits)

lemma map2_minus_swap:
  "map2 (\<lambda>a b. b - a) ys xs = map uminus (map2 (\<lambda>(a::int) b. b - a) xs ys)"
  by (induction xs ys rule: list_induct2') simp_all

lemma differences_swap: "differences word2 word1 = map uminus (differences word1 word2)"
proof -
  obtain a b where ab: "equalizeInts (ord_list word1) (ord_list word2) = (a, b)"
    by fastforce
  then have "equalizeInts (ord_list word2) (ord_list word1) = (b, a)"
    by (simp add: equalizeInts_swap [of "ord_list word2"])
  then have "differences word2 word1 = map2 (\<lambda>a b. b - a) b a"
    by (simp add: differences_def)
  also have "\<dots> = map uminus (map2 (\<lambda>a b. b - a) a b)"
    by (rule map2_minus_swap)
  also have "\<dots> = map uminus (differences word1 word2)"
    using ab by (simp add: differences_def)
  finally show ?thesis .
qed

lemma word_score_commute: "word_score word2 word1 = word_score word1 word2"
  unfolding word_score_def differences_swap [of word2 word1] by (rule S_uminus)

lemma word_score_NaN_iff: "word_score word1 word2 = NaN \<longleftrightarrow> word1 = [] \<and> word2 = []"
  by (auto simp: word_score_def differences_def equalizeInts_def Let_def ord_list_def S_NaN_iff)

lemma word_score_range:
  assumes "word_score word1 word2 = Num r" shows "0 \<le> r \<and> r \<le> 1"
  using assms S_range by (auto simp: word_score_def)

lemma map2_minus_same: "map2 (\<lambda>a b. b - a) xs xs = replicate (length xs) (0::int)"
  by (induction xs) simp_all

lemma word_score_same: "word \<noteq> [] \<Longrightarrow> word_score word word = Num 1"
  by (simp add: word_score_def differences_def equalizeInts_def ord_list_def map2_minus_same
      S_replicate_0)

section \<open>Means, word splitting and equalization\<close>

lemma np_sum_NaN_iff: "np_sum sim = NaN \<longleftrightarrow> NaN \<in> set sim"
  by (induction sim rule: np_sum.induct) (auto split: npfloat.splits)

lemma np_mean_NaN_iff: "np_mean sim = NaN \<longleftrightarrow> sim = [] \<or> NaN \<in> set sim"
  using np_sum_NaN_iff [of sim] by (cases "np_sum sim") (auto simp: np_mean_def)

lemma np_sum_range:
  assumes "np_sum sim = Num t" "\<And>r. Num r \<in> set sim \<Longrightarrow> 0 \<le> r \<and> r \<le> 1"
  shows "0 \<le> t \<and> t \<le> real (length sim)"
  using assms
proof (induction sim arbitrary: t rule: np_sum.induct)
  case 1
  then show ?case by simp
next
  case (2 a xs)
  from "2.prems"(1) obtain b where b: "np_sum xs = Num b" and t: "t = a + b"
    by (auto split: npfloat.splits)
  have "0 \<le> b \<and> b \<le> real (length xs)"
    using "2.IH" [OF b] "2.prems"(2) by simp
  moreover have "0 \<le> a \<and> a \<le> 1"
    using "2.prems"(2) [of a] by simp
  ultimately show ?case
    using t by simp
next
  case (3 xs)
  then show ?case by simp
qed

lemma np_mean_range:
  assumes "np_mean sim = Num m" "\<And>r. Num r \<in> set sim \<Longrightarrow> 0 \<le> r \<and> r \<le> 1"
  shows "0 \<le> m \<and> m \<le> 1"
proof -
  from assms(1) obtain t where ne: "sim \<noteq> []" and t: "np_sum sim = Num t"
    and m: "m = t / real (length sim)"
    by (auto simp: np_mean_def split: if_splits npfloat.splits)
  have "0 \<le> t \<and> t \<le> real (length sim)"
    using np_sum_range [OF t assms(2)] by simp
  then show ?thesis
    unfolding m using ne by (simp add: divide_le_eq_1)
qed

lemma np_sum_replicate: "np_sum (replicate n (Num a)) = Num (real n * a)"
  by (induction n) (simp_all add: algebra_simps)

lemma np_mean_all_one:
  assumes "sim \<noteq> []" "\<And>x. x \<in> set sim \<Longrightarrow> x = Num 1"
  shows "np_mean sim = Num 1"
proof -
  have "sim = replicate (length sim) (Num 1)"
    using assms(2) by (simp add: replicate_length_same)
  then have "np_sum sim = Num (real (length sim))"
    using np_sum_replicate [of "length sim" 1] by simp
  then show ?thesis
    using assms(1) by (simp add: np_mean_def)
qed

lemma py_split_not_Nil: "py_split sep text \<noteq> []"
  by (induction "text") simp_all

lemma length_py_split: "length (py_split sep text) = Suc (count_list text sep)"
proof (induction "text")
  case Nil
  then show ?case by simp
next
  case (Cons c cs)
  then show ?case
    using py_split_not_Nil [of sep cs] by (cases "py_split sep cs") simp_all
qed

lemma count_list_sentinels_Suc:
  "count_list (py_join [32] (replicate (Suc n) [0])) (32::nat) = n"
  by (induction n) simp_all

lemma count_list_sentinels:
  "count_list (py_join [32] (replicate n [0])) (32::nat) = n - 1"
  using count_list_sentinels_Suc by (cases n) simp_all

lemma count_list_append: "count_list (xs @ ys) a = count_list xs a + count_list ys a"
  by (induction xs) simp_all

lemma equalizeTexts_word_counts:
  assumes "equalizeTexts text1 text2 = (t1, t2)"
  shows "length (py_split 32 text1) = length (py_split 32 text2) \<Longrightarrow>
           t1 = text1 \<and> t2 = text2"
    and "length (py_split 32 text1) > length (py_split 32 text2) \<Longrightarrow>
           t1 = text1 \<and> Suc (length (py_split 32 t2)) = length (py_split 32 t1)"
    and "length (py_split 32 text1) < length (py_split 32 text2) \<Longrightarrow>
           t2 = text2 \<and> Suc (length (py_split 32 t1)) = length (py_split 32 t2)"
  using assms
  by (auto simp: equalizeTexts_def Let_def length_py_split count_list_append
      count_list_sentinels split: if_splits)

lemma equalizeTexts_swap:
  "equalizeTexts text2 text1 = prod.swap (equalizeTexts text1 text2)"
  by (simp add: equalizeTexts_def Let_def)

lemma word_pairs_swap: "word_pairs text2 text1 = map prod.swap (word_pairs text1 text2)"
proof -
  obtain t1 t2 where t: "equalizeTexts (clean text1) (clean text2) = (t1, t2)"
    by fastforce
  then have "equalizeTexts (clean text2) (clean text1) = (t2, t1)"
    by (simp add: equalizeTexts_swap [of "clean text2"])
  then have "word_pairs text2 text1 = zip (py_split 32 t2) (py_split 32 t1)"
    by (simp add: word_pairs_def)
  also have "\<dots> = map prod.swap (zip (py_split 32 t1) (py_split 32 t2))"
    by (simp add: zip_commute [of "py_split 32 t2"] prod.swap_def case_prod_unfold)
  finally show ?thesis
    using t by (simp add: word_pairs_def)
qed

lemma word_pairs_not_Nil: "word_pairs text1 text2 \<noteq> []"
  by (simp add: word_pairs_def py_split_not_Nil split: prod.splits)

section \<open>Properties of the similarity score\<close>

lemmas clean_unfold =
  clean_def str_def lower_def lower_cp_def replace_def strip_def isspace_def keep_def

lemmas word_pairs_unfold = word_pairs_def equalizeTexts_def clean_unfold

lemma S_single: "S [x] = Num (kernel x 1)"
  by (simp add: S_def)

lemma word_score_single: "word_score [a] [b] = Num (kernel (int b - int a) 1)"
  by (simp add: word_score_def differences_def equalizeInts_def ord_list_def S_def)

lemma similarity_score_range:
  assumes "Num r \<in> set (map (\<lambda>(word1, word2). word_score word1 word2) ps)"
  shows "0 \<le> r \<and> r \<le> 1"
  using assms word_score_range by force

lemma similarity_range:
  assumes "similarity text1 text2 = Inr (Num r)" shows "0 \<le> r \<and> r \<le> 1"
proof -
  from assms have
    "np_mean (map (\<lambda>(word1, word2). word_score word1 word2) (word_pairs text1 text2)) = Num r"
    by (simp add: similarity_def)
  then show ?thesis
    by (rule np_mean_range) (rule similarity_score_range)
qed

lemma similarity_NaN_iff:
  "similarity text1 text2 = Inr NaN \<longleftrightarrow> ([], []) \<in> set (word_pairs text1 text2)"
proof -
  have "NaN = word_score word1 word2 \<longleftrightarrow> word1 = [] \<and> word2 = []" for word1 word2
    using word_score_NaN_iff [of word1 word2] by auto
  then have "NaN \<in> set (map (\<lambda>(word1, word2). word_score word1 word2) ps) \<longleftrightarrow>
      ([], []) \<in> set ps" for ps
    by (induction ps) auto
  then show ?thesis
    by (simp add: similarity_def np_mean_NaN_iff word_pairs_not_Nil)
qed

lemma scores_Inr:
  "\<exists>sim. scores fs = Inr sim \<and> length sim = length fs \<and>
     (\<forall>s \<in> set sim. \<exists>f1 f2. similarity f1 f2 = Inr s)"
proof (induction fs)
  case Nil
  then show ?case by simp
next
  case (Cons f fs)
  obtain f1 f2 where f: "f = (f1, f2)"
    by fastforce
  obtain s where s: "similarity f1 f2 = Inr s"
    by (simp add: similarity_def)
  from Cons obtain sim where sim: "scores fs = Inr sim" "length sim = length fs"
    "\<forall>s \<in> set sim. \<exists>f1 f2. similarity f1 f2 = Inr s"
    by blast
  have "scores (f # fs) = Inr (s # sim)"
    using f s sim(1) by simp
  then show ?case
    using s sim(2,3) by auto
qed

lemma MSCMultiple_similarity_range:
  assumes "MSCMultiple_similarity fields1 fields2 = Inr (Num m)" shows "0 \<le> m \<and> m \<le> 1"
proof -
  obtain sim where sim: "scores (zip fields1 fields2) = Inr sim"
    "\<forall>s \<in> set sim. \<exists>f1 f2. similarity f1 f2 = Inr s"
    using scores_Inr by blast
  with assms have "np_mean sim = Num m"
    by (simp add: MSCMultiple_similarity_def)
  moreover have "0 \<le> r \<and> r \<le> 1" if "Num r \<in> set sim" for r
    using sim(2) that similarity_range by blast
  ultimately show ?thesis
    by (rule np_mean_range)
qed

lemma similarity_a_a: "similarity (str ''a'') (str ''a'') = Inr (Num 1)"
proof -
  have "word_pairs (str ''a'') (str ''a'') = [([97], [97])]"
    by (simp add: word_pairs_unfold)
  then show ?thesis
    by (simp add: similarity_def np_mean_def word_score_single kernel_0)
qed

lemma similarity_returns: "\<exists>v. similarity text1 text2 = Inr v"
  by (simp add: similarity_def)

lemma MSCMultiple_similarity_returns: "\<exists>v. MSCMultiple_similarity fields1 fields2 = Inr v"
  using scores_Inr [of "zip fields1 fields2"] by (auto simp: MSCMultiple_similarity_def)

lemma zip_aligned_prefix:
  "zip (take (min (length xs) (length ys)) xs) (take (min (length xs) (length ys)) ys) = zip xs ys"
proof -
  have "zip (take (min (length xs) (length ys)) xs) (take (min (length xs) (length ys)) ys) =
      take (min (length xs) (length ys)) (zip xs ys)"
    by (rule take_zip [symmetric])
  also have "\<dots> = zip xs ys"
    by simp
  finally show ?thesis .
qed

lemma word_pairs_same:
  "word_pairs T T = zip (py_split 32 (clean T)) (py_split 32 (clean T))"
  by (simp add: word_pairs_def equalizeTexts_def)

lemma similarity_same:
  assumes "([], []) \<notin> set (word_pairs T T)" shows "similarity T T = Inr (Num 1)"
proof -
  have "x = Num 1"
    if "x \<in> set (map (\<lambda>(word1, word2). word_score word1 word2) (word_pairs T T))" for x
  proof -
    from that obtain w where w: "(w, w) \<in> set (word_pairs T T)" and x: "x = word_score w w"
      by (auto simp: word_pairs_same zip_same)
    from w assms have "w \<noteq> []"
      by auto
    then show ?thesis
      using x by (simp add: word_score_same)
  qed
  then have "np_mean (map (\<lambda>(word1, word2). word_score word1 word2) (word_pairs T T)) = Num 1"
    by (intro np_mean_all_one) (simp_all add: word_pairs_not_Nil)
  then show ?thesis
    by (simp add: similarity_def)
qed

section \<open>The claims\<close>

text \<open>
  C1. \<open>similarity(T, T)\<close> is 1 for a text whose cleaned form has no empty word
  (\<open>similarity_same\<close>), but not for every non-empty \<open>T\<close>: in \<open>a . b\<close> the full stop is
  dropped after the spaces have been collapsed, the cleaned text \<open>a  b\<close> has an empty
  middle word, and the mean over its empty difference array is \<open>nan\<close>.
\<close>

theorem similarity_reflexive_nan:
  "word_pairs (str ''a . b'') (str ''a . b'') = [(str ''a'', str ''a''), ([], []), (str ''b'', str ''b'')] \<and>
   similarity (str ''a . b'') (str ''a . b'') = Inr NaN"
proof -
  have "word_pairs (str ''a . b'') (str ''a . b'') = [([97], [97]), ([], []), ([98], [98])]"
    by (simp add: word_pairs_unfold)
  then show ?thesis
    by (simp add: similarity_NaN_iff str_def)
qed

text \<open>
  C2. For all texts \<open>A\<close> and \<open>B\<close>, \<open>similarity(A, B)\<close> and \<open>similarity(B, A)\<close> return the same
  score. Swapping the arguments swaps the two words of every aligned pair, and
  swapping two words negates their difference vector, which the kernel squares.
\<close>

theorem similarity_symmetric:
  "similarity B A = similarity A B \<and>
   word_pairs B A = map prod.swap (word_pairs A B) \<and>
   differences word2 word1 = map uminus (differences word1 word2)"
proof -
  have swap: "map (\<lambda>(word1, word2). word_score word1 word2) (map prod.swap ps) =
      map (\<lambda>(word1, word2). word_score word1 word2) ps" for ps
    by (induction ps) (auto simp: word_score_commute)
  have "similarity B A =
      Inr (np_mean (map (\<lambda>(word1, word2). word_score word1 word2)
        (map prod.swap (word_pairs A B))))"
    by (simp only: similarity_def word_pairs_swap [of B A])
  also have "\<dots> = Inr (np_mean (map (\<lambda>(word1, word2). word_score word1 word2) (word_pairs A B)))"
    by (simp only: swap)
  also have "\<dots> = similarity A B"
    by (simp only: similarity_def)
  finally show ?thesis
    using word_pairs_swap [of B A] differences_swap [of word2 word1] by simp
qed

text \<open>
  C3, as the program has it. A score returned by \<open>similarity\<close> that is a number (not
  \<open>nan\<close>) lies between 0 and 1, both bounds included, and so does the mean returned
  by \<open>MSCMultiple.similarity\<close>. The lower bound is not strict: \<open>np.exp\<close> underflows to
  \<open>0.0\<close> once two aligned characters are 39 or more codes apart.
\<close>

theorem similarity_in_unit_interval:
  "(similarity A B = Inr (Num r) \<longrightarrow> 0 \<le> r \<and> r \<le> 1) \<and>
   (MSCMultiple_similarity F G = Inr (Num m) \<longrightarrow> 0 \<le> m \<and> m \<le> 1)"
  using similarity_range MSCMultiple_similarity_range by blast

theorem similarity_in_unit_interval_witness:
  "similarity (str ''a'') (str ''a'') = Inr (Num 1) \<and>
   MSCMultiple_similarity [str ''a''] [str ''a''] = Inr (Num 1) \<and>
   (0::real) \<le> 1 \<and> (1::real) \<le> 1"
proof -
  have a: "similarity (str ''a'') (str ''a'') = Inr (Num 1)"
    by (rule similarity_a_a)
  then have b: "MSCMultiple_similarity [str ''a''] [str ''a''] = Inr (Num 1)"
    by (simp add: MSCMultiple_similarity_def np_mean_def)
  show ?thesis
    using a b similarity_in_unit_interval [of "str ''a''" "str ''a''" 1 "[str ''a'']" "[str ''a'']" 1]
    by simp
qed

text \<open>
  C3 as stated fails: the texts \<open>a\<close> and \<open>0\<close> are valid inputs (one word each, of one
  character), their codes 97 and 48 are 49 apart, and the score is exactly 0.
\<close>

theorem similarity_positive_counterexample:
  "similarity (str ''a'') (str ''0'') = Inr (Num 0)"
proof -
  have "word_pairs (str ''a'') (str ''0'') = [([97], [48])]"
    by (simp add: word_pairs_unfold)
  then show ?thesis
    by (simp add: similarity_def np_mean_def word_score_single kernel_far)
qed

text \<open>
  C4. \<open>clean\<close> is not idempotent: it filters out the characters it does not keep after
  stripping and collapsing spaces, so \<open>a . b\<close> is cleaned to \<open>a  b\<close> with two spaces,
  which a second \<open>clean\<close> turns into \<open>a b\<close>.
\<close>

theorem clean_twice_differs:
  "clean (str ''a . b'') = str ''a  b'' \<and> clean (clean (str ''a . b'')) = str ''a b'' \<and>
   clean (clean (str ''a . b'')) \<noteq> clean (str ''a . b'')"
  by (simp add: clean_unfold)

text \<open>
  C5. After \<open>equalizeTexts\<close> the two texts do not split into equally many words when
  they did not before: the block of sentinels is appended without a leading space, so
  the shorter text gains one word less than it lacks (\<open>equalizeTexts_word_counts\<close>).
  For \<open>a b\<close> and \<open>a\<close> the counts stay 2 and 1, and the word \<open>b\<close> has no partner in the
  one aligned pair.
\<close>

theorem equalizeTexts_counts_differ:
  "equalizeTexts (clean (str ''a b'')) (clean (str ''a'')) = (str ''a b'', str ''a'' @ [0]) \<and>
   length (py_split 32 (str ''a b'')) = 2 \<and> length (py_split 32 (str ''a'' @ [0])) = 1 \<and>
   word_pairs (str ''a b'') (str ''a'') = [(str ''a'', str ''a'' @ [0])]"
  by (simp add: word_pairs_unfold)

text \<open>
  C6, as the program has it. \<open>similarity("", "")\<close> raises nothing: the one aligned pair
  of empty words gives an empty difference array, whose mean numpy returns as \<open>nan\<close>,
  and \<open>nan\<close> is the value returned.
\<close>

theorem similarity_empty_nan:
  "differences (str '''') (str '''') = [] \<and> similarity (str '''') (str '''') = Inr NaN"
proof -
  have "word_pairs (str '''') (str '''') = [([], [])]"
    by (simp add: word_pairs_unfold)
  then show ?thesis
    by (simp add: similarity_NaN_iff str_def differences_def equalizeInts_def ord_list_def)
qed

text \<open>C6 as stated fails: the call on two empty strings does not end in \<open>InvalidInput\<close>.\<close>

theorem similarity_empty_counterexample:
  "similarity (str '''') (str '''') \<noteq> Inl InvalidInput"
  by (simp add: similarity_def)

text \<open>
  C7, as the program has it. \<open>MSCMultiple.similarity\<close> never fails; with field lists of
  different lengths it returns what it returns for the aligned prefix, the first
  \<open>min(len(fields1), len(fields2))\<close> fields of each list, and ignores the rest.
\<close>

theorem MSCMultiple_similarity_truncates:
  "(\<exists>v. MSCMultiple_similarity F G = Inr v) \<and>
   MSCMultiple_similarity F G =
     MSCMultiple_similarity (take (min (length F) (length G)) F)
       (take (min (length F) (length G)) G)"
  using MSCMultiple_similarity_returns [of F G]
  by (simp only: MSCMultiple_similarity_def zip_aligned_prefix simp_thms)

text \<open>
  C7 as stated fails: one field against two fields is no error, the surplus field is
  not looked at and the result is the score of the first pair.
\<close>

theorem MSCMultiple_similarity_mismatch_counterexample:
  "MSCMultiple_similarity [str ''a''] [str ''a'', str ''b''] = Inr (Num 1)"
  using similarity_a_a by (simp add: MSCMultiple_similarity_def np_mean_def)

text \<open>
  C8. \<open>similarity("one two three", "one")\<close> raises nothing and returns 1/2, which lies
  in (0, 1], but the equalization does not succeed. \<open>equalizeTexts\<close> appends two
  sentinels joined by a space to \<open>one\<close> without a leading space; the first merges with
  \<open>one\<close>, so the second text splits into the two words \<open>one\0\<close> and \<open>\0\<close> against
  three words of the first text. Only two pairs are aligned, \<open>one\<close> with \<open>one\0\<close> and
  \<open>two\<close> with \<open>\0\<close>, and the word \<open>three\<close> is compared with nothing.
\<close>

theorem similarity_one_two_three_unequal:
  "equalizeTexts (clean (str ''one two three'')) (clean (str ''one'')) =
     (str ''one two three'', str ''one'' @ [0, 32, 0]) \<and>
   py_split 32 (str ''one two three'') = [str ''one'', str ''two'', str ''three''] \<and>
   py_split 32 (str ''one'' @ [0, 32, 0]) = [str ''one'' @ [0], [0]] \<and>
   length (py_split 32 (str ''one two three'')) = 3 \<and>
   length (py_split 32 (str ''one'' @ [0, 32, 0])) = 2 \<and>
   word_pairs (str ''one two three'') (str ''one'') =
     [(str ''one'', str ''one'' @ [0]), (str ''two'', [0])] \<and>
   similarity (str ''one two three'') (str ''one'') = Inr (Num (1 / 2))"
proof -
  have a: "equalizeTexts (clean (str ''one two three'')) (clean (str ''one'')) =
      (str ''one two three'', str ''one'' @ [0, 32, 0])"
    by (simp add: equalizeTexts_def clean_unfold)
  have b: "py_split 32 (str ''one two three'') = [str ''one'', str ''two'', str ''three'']"
    by (simp add: str_def)
  have c: "py_split 32 (str ''one'' @ [0, 32, 0]) = [str ''one'' @ [0], [0]]"
    by (simp add: str_def)
  have d: "word_pairs (str ''one two three'') (str ''one'') =
      [([111, 110, 101], [111, 110, 101, 0]), ([116, 119, 111], [0])]"
    by (simp add: word_pairs_unfold)
  then have e: "similarity (str ''one two three'') (str ''one'') = Inr (Num (1 / 2))"
    by (simp add: similarity_def np_mean_def word_score_def differences_def equalizeInts_def
        ord_list_def S_def kernel_far kernel_0)
  have f: "word_pairs (str ''one two three'') (str ''one'') =
      [(str ''one'', str ''one'' @ [0]), (str ''two'', [0])]"
    using d by (simp add: str_def)
  show ?thesis
    using a b c e f by simp
qed

text \<open>
  C9, as the program has it. For two single-character words the score is a number that
  depends on the absolute difference of the two codes only through the kernel: it is 1
  exactly when the codes are equal, a larger difference never gives a larger score, and
  it gives a strictly smaller score as long as the smaller difference is at most 38.
  From a difference of 39 on the score is exactly 0.
\<close>

theorem word_score_single_decay:
  "\<exists>r1 r2. word_score [a] [b] = Num r1 \<and> word_score [c] [d] = Num r2 \<and>
     (r1 = 1 \<longleftrightarrow> a = b) \<and> (r1 = 0 \<longleftrightarrow> 39 \<le> \<bar>int b - int a\<bar>) \<and>
     (\<bar>int b - int a\<bar> < \<bar>int d - int c\<bar> \<longrightarrow> r2 \<le> r1) \<and>
     (\<bar>int b - int a\<bar> < \<bar>int d - int c\<bar> \<and> \<bar>int b - int a\<bar> \<le> 38 \<longrightarrow> r2 < r1)"
proof -
  have "kernel (int b - int a) 1 = 1 \<longleftrightarrow> a = b"
    by (auto simp: kernel_eq_1_iff)
  moreover have "kernel (int b - int a) 1 = 0 \<longleftrightarrow> 39 \<le> \<bar>int b - int a\<bar>"
    by (rule kernel_eq_0_iff)
  moreover have "kernel (int d - int c) 1 \<le> kernel (int b - int a) 1"
    if "\<bar>int b - int a\<bar> < \<bar>int d - int c\<bar>"
    using that by (intro kernel_antimono) simp
  moreover have "kernel (int d - int c) 1 < kernel (int b - int a) 1"
    if "\<bar>int b - int a\<bar> < \<bar>int d - int c\<bar>" "\<bar>int b - int a\<bar> \<le> 38"
    using that by (rule kernel_strict_antimono)
  ultimately show ?thesis
    unfolding word_score_single by blast
qed

theorem word_score_single_decay_witness:
  "word_score (str ''a'') (str ''b'') = Num (kernel 1 1) \<and>
   word_score (str ''a'') (str ''d'') = Num (kernel 3 1) \<and>
   kernel 3 1 < kernel 1 1"
  using word_score_single_decay [of 97 98 97 100]
  by (simp add: str_def word_score_single)

text \<open>
  C9 as stated fails: \<open>a\<close> and \<open>0\<close> are 49 codes apart, \<open>z\<close> and \<open>0\<close> 74, and both pairs
  score exactly 0, so the larger difference does not give a strictly smaller score.
\<close>

theorem word_score_decay_counterexample:
  "word_score (str ''a'') (str ''0'') = Num 0 \<and> word_score (str ''z'') (str ''0'') = Num 0"
  by (simp add: str_def word_score_single kernel_far)

text \<open>
  C10. \<open>MSC.similarity\<close> returns a value for every pair of texts and raises nothing.
  There is always at least one aligned word pair; the value is \<open>nan\<close> exactly when some
  aligned pair consists of two empty words. \<open>np.mean\<close> of no scores is \<open>nan\<close> as well,
  which is what \<open>MSCMultiple.similarity\<close> returns on two empty lists, and
  \<open>MSCMultiple.similarity\<close> raises nothing either.
\<close>

theorem similarity_never_raises:
  "(\<exists>v. similarity A B = Inr v) \<and>
   word_pairs A B \<noteq> [] \<and>
   (similarity A B = Inr NaN \<longleftrightarrow> ([], []) \<in> set (word_pairs A B)) \<and>
   np_mean [] = NaN \<and>
   (\<exists>v. MSCMultiple_similarity F G = Inr v) \<and>
   MSCMultiple_similarity [] [] = Inr NaN"
  using similarity_returns [of A B] MSCMultiple_similarity_returns [of F G]
    word_pairs_not_Nil [of A B] similarity_NaN_iff [of A B]
  by (simp add: MSCMultiple_similarity_def np_mean_def)

theorem similarity_never_raises_witness:
  "similarity (str ''!'') (str ''?'') = Inr NaN \<and>
   ([], []) \<in> set (word_pairs (str ''!'') (str ''?''))"
proof -
  have "word_pairs (str ''!'') (str ''?'') = [([], [])]"
    by (simp add: word_pairs_unfold)
  then show ?thesis
    using similarity_never_raises [of "str ''!''" "str ''?''" "[]" "[]"] by simp
qed

end
